theory Spec2Isabelle
  imports Main "HOL-Library.Word"
begin

section \<open>Values that cross the encoder's boundary\<close>

text \<open>
  The encoders of \<^verbatim>\<open>transferName.ts\<close>, \<^verbatim>\<open>deleteSubname.ts\<close> (src/unnamed/part_000)
  and \<^verbatim>\<open>registerName.ts\<close> (the second document of getAddr.test.ts) are pure functions
  from a wallet and a parameter object to a transaction request, or they throw.
  A name is a \<open>string\<close>: the list of the bytes of its UTF-8 text, so that the length of a
  label is its byte length and splitting at the full stop is the same as on the text.
  A 32-byte hex value (\<^verbatim>\<open>Hex\<close> of a node or a label hash) is a 256-bit word, and
  \<^verbatim>\<open>BigInt(hex)\<close> is its unsigned value \<open>uint\<close>. An address is a 160-bit word.
\<close>

type_synonym Hash = "256 word"
type_synonym Address = "160 word"

text \<open>
  Modelled from the spec: the type \<^verbatim>\<open>NameType\<close> of utils/getNameType is not under src/.
  The spec lists a closed classification of five values; the sources name three of them
  by their literals \<^verbatim>\<open>'eth-2ld'\<close>, \<^verbatim>\<open>'eth-subname'\<close> and \<^verbatim>\<open>'other-subname'\<close>.
\<close>

datatype NameType =
    EthTld        \<comment> \<open>top-level allocation name: the primary suffix alone\<close>
  | Eth2ld        \<comment> \<open>\<^verbatim>\<open>'eth-2ld'\<close>: second-level name under the primary suffix\<close>
  | EthSubname    \<comment> \<open>\<^verbatim>\<open>'eth-subname'\<close>: subname under the primary suffix\<close>
  | OtherSubname  \<comment> \<open>\<^verbatim>\<open>'other-subname'\<close>: subname under a foreign suffix\<close>
  | Unsupported

text \<open>
  The ABI snippets are constants of the contracts/ directory, which is not under src/;
  each is named as the source imports it. An argument of a call is one of the JavaScript
  values the sources pass: a 32-byte hex, an address, a bigint, a number, a string or a
  byte string (\<^verbatim>\<open>'0x'\<close> is the empty one).
\<close>

datatype AbiSnippet =
    reclaimSnippet
  | erc1155SafeTransferFromSnippet
  | erc721SafeTransferFromSnippet
  | nameWrapperSetSubnodeOwnerSnippet
  | registrySetSubnodeOwnerSnippet
  | setOwnerSnippet
  | nameWrapperSetSubnodeRecordSnippet
  | nameWrapperSetRecordSnippet
  | registrySetRecordSnippet
  | registrySetSubnodeRecordSnippet
  | registerSnippet

datatype AbiValue =
    Bytes32 Hash
  | Addr Address
  | BigInt int
  | Number int
  | Str string
  | HexBytes "8 word list"

text \<open>
  \<^verbatim>\<open>encodeFunctionData\<close> belongs to the viem library. Its result is kept as the call it
  encodes: the snippet, the function name and the arguments, in the order given.
\<close>

record FunctionData =
  abi :: AbiSnippet
  functionName :: string
  args :: "AbiValue list"

definition encodeFunctionData :: "AbiSnippet \<Rightarrow> string \<Rightarrow> AbiValue list \<Rightarrow> FunctionData" where
  "encodeFunctionData a f xs = \<lparr>abi = a, functionName = f, args = xs\<rparr>"

record SimpleTransactionRequest =
  to :: Address
  data :: FunctionData

record RegisterNameDataReturnType = SimpleTransactionRequest +
  value' :: int

text \<open>
  The errors the encoders throw, with the fields the sources give them.
  \<open>MalformedNameError\<close> and \<open>LabelTooLongError\<close> are thrown by helpers that are not under
  src/; the spec names them (sections 4.1, 4.2 and 7).
\<close>

datatype error =
    AdditionalParameterSpecifiedError string "string list" string
      \<comment> \<open>parameter, allowedParameters, details\<close>
  | UnsupportedNameTypeError NameType "NameType list" string
      \<comment> \<open>nameType, supportedNameTypes, details\<close>
  | InvalidContractTypeError string "string list"
      \<comment> \<open>contractType, supportedContractTypes\<close>
  | Error string
  | MalformedNameError
  | LabelTooLongError

text \<open>
  The wallet, as far as the encoders read it: the chain's contract table, which the type
  \<^verbatim>\<open>ChainWithEns\<close> fills for every ENS contract name, and the account's address.
\<close>

record Wallet =
  contracts :: "string \<Rightarrow> Address"
  account_address :: Address

definition getChainContractAddress :: "Wallet \<Rightarrow> string \<Rightarrow> Address" where
  "getChainContractAddress client c = contracts client c"

text \<open>
  Modelled from the spec: \<^verbatim>\<open>EMPTY_ADDRESS\<close> of utils/consts is not under src/; the spec
  calls it the zero address.
\<close>

definition EMPTY_ADDRESS :: Address where
  "EMPTY_ADDRESS = 0"

text \<open>An optional boolean flag (\<^verbatim>\<open>reclaim?: boolean\<close>) is tested for truthiness.\<close>

definition truthy :: "bool option \<Rightarrow> bool" where
  "truthy b = (b = Some True)"

section \<open>Splitting a name\<close>

text \<open>
  \<^verbatim>\<open>name.split('.')\<close>: every full stop ends a label, labels may be empty, and the empty
  name has the one label \<^verbatim>\<open>''\<close>. \<open>join\<close> is \<^verbatim>\<open>labels.join('.')\<close>.
\<close>

fun split_dot :: "string \<Rightarrow> string list" where
  "split_dot [] = [[]]"
| "split_dot (c # cs) =
     (if c = CHR ''.'' then [] # split_dot cs
      else (c # hd (split_dot cs)) # tl (split_dot cs))"

fun join :: "string list \<Rightarrow> string" where
  "join [] = []"
| "join [l] = l"
| "join (l # ls) = l @ CHR ''.'' # join ls"

section \<open>Helpers that are not under src/\<close>

text \<open>
  The encoders call \<^verbatim>\<open>getNameType\<close>, \<^verbatim>\<open>namehash\<close>, \<^verbatim>\<open>makeLabelNodeAndParent\<close>
  (utils/) and viem's \<^verbatim>\<open>labelhash\<close>. None of them is under src/, so the encoders take
  them as parameters, gathered in a record, and the theorems about the encoders hold for
  every choice of them. A helper that throws returns \<open>None\<close>; the spec gives
  \<open>MalformedNameError\<close> as the error of the classifier and of the label splitter.
\<close>

record LabelNodeAndParent =
  label :: string
  labelhash :: Hash
  parentNode :: Hash

record Helpers =
  getNameType :: "string \<Rightarrow> NameType option"
  namehash :: "string \<Rightarrow> Hash"
  viem_labelhash :: "string \<Rightarrow> Hash"
  makeLabelNodeAndParent :: "string \<Rightarrow> LabelNodeAndParent option"

subsection \<open>The helpers as the spec describes them\<close>

text \<open>
  \<open>keccak\<close> is a parameter throughout: a function from bytes to a 256-bit digest.
\<close>

definition stringToBytes :: "string \<Rightarrow> 8 word list" where
  "stringToBytes s = map of_char s"

definition hashToBytes :: "Hash \<Rightarrow> 8 word list" where
  "hashToBytes w = map (\<lambda>i. ucast (drop_bit (8 * (31 - i)) w)) [0..<32]"

text \<open>
  Modelled from the spec: \<^verbatim>\<open>labelhash\<close> (viem) is not under src/. Section 3:
  LabelHash(label) = keccak(label-bytes).
\<close>

definition labelHash :: "(8 word list \<Rightarrow> Hash) \<Rightarrow> string \<Rightarrow> Hash" where
  "labelHash keccak l = keccak (stringToBytes l)"

text \<open>
  Modelled from the spec: \<^verbatim>\<open>namehash\<close> (utils/normalise) is not under src/. Section 3:
  NodeHash(root) = 0 (32 zero bytes); NodeHash(label.rest) =
  keccak(NodeHash(rest) ++ keccak(label-bytes)). The root is the empty name.
\<close>

fun nodeHashLabels :: "(8 word list \<Rightarrow> Hash) \<Rightarrow> string list \<Rightarrow> Hash" where
  "nodeHashLabels keccak [] = 0"
| "nodeHashLabels keccak (l # rest) =
     keccak (hashToBytes (nodeHashLabels keccak rest) @ hashToBytes (labelHash keccak l))"

definition nodeHash :: "(8 word list \<Rightarrow> Hash) \<Rightarrow> string \<Rightarrow> Hash" where
  "nodeHash keccak n = (if n = [] then 0 else nodeHashLabels keccak (split_dot n))"

text \<open>
  Modelled from the spec: \<^verbatim>\<open>makeLabelNodeAndParent\<close> (utils/makeLabelNodeAndParent) is
  not under src/. Section 4.2: it splits off the first label and computes the parent's
  node hash from the remaining labels, failing with MalformedNameError if the name has
  fewer than two labels.
\<close>

definition labelAndParent :: "(8 word list \<Rightarrow> Hash) \<Rightarrow> string \<Rightarrow> LabelNodeAndParent option" where
  "labelAndParent keccak n =
     (let labels = split_dot n in
      if length labels < 2 then None
      else Some \<lparr>label = hd labels,
                 labelhash = labelHash keccak (hd labels),
                 parentNode = nodeHash keccak (join (tl labels))\<rparr>)"

text \<open>
  Modelled from the spec: \<^verbatim>\<open>getNameType\<close> (utils/getNameType) is not under src/.
  Section 4.1: it fails with MalformedNameError if any label is empty or the name is
  empty; the final label and the number of labels decide the type, and a single foreign
  label is unsupported. The primary suffix is the label \<^verbatim>\<open>eth\<close>.
\<close>

definition classify :: "string \<Rightarrow> NameType option" where
  "classify n =
     (let labels = split_dot n in
      if n = [] \<or> [] \<in> set labels then None
      else if last labels = ''eth'' \<and> length labels = 2 then Some Eth2ld
      else if last labels = ''eth'' \<and> length labels = 1 then Some EthTld
      else if last labels = ''eth'' then Some EthSubname
      else if 1 < length labels then Some OtherSubname
      else Some Unsupported)"

text \<open>
  Modelled from the spec: \<^verbatim>\<open>wrappedLabelLengthCheck\<close> (utils/wrapper) is not under src/.
  Section 4.2: checkLabelLength fails with LabelTooLongError when the label's byte length
  exceeds 255. \<open>None\<close> is a check that passes.
\<close>

definition checkLabelLength :: "string \<Rightarrow> error option" where
  "checkLabelLength l = (if 255 < length l then Some LabelTooLongError else None)"

definition spec_helpers :: "(8 word list \<Rightarrow> Hash) \<Rightarrow> Helpers" where
  "spec_helpers keccak =
     \<lparr>getNameType = classify,
      namehash = nodeHash keccak,
      viem_labelhash = labelHash keccak,
      makeLabelNodeAndParent = labelAndParent keccak\<rparr>"

section \<open>transferName: makeFunctionData\<close>

text \<open>
  The parameter object \<^verbatim>\<open>{ name, newOwnerAddress, contract, reclaim, asParent }\<close> is
  destructured in the signature, as in the source. \<^verbatim>\<open>contract\<close> is a string: the
  \<^verbatim>\<open>default\<close> branch of the switch answers the values the type does not list.
\<close>

definition transferName_makeFunctionData ::
  "Helpers \<Rightarrow> Wallet \<Rightarrow> string \<Rightarrow> Address \<Rightarrow> string \<Rightarrow> bool option \<Rightarrow> bool option
     \<Rightarrow> error + SimpleTransactionRequest" where
  "transferName_makeFunctionData h wallet name newOwnerAddress contract reclaim asParent =
     (if truthy reclaim \<and> contract \<noteq> ''registrar'' then
        Inl (AdditionalParameterSpecifiedError ''reclaim''
               [''name'', ''newOwnerAddress'', ''contract'']
               ''Can't reclaim a name from any contract other than the registrar'')
      else if contract = ''registry'' then
        (let registryAddress = getChainContractAddress wallet ''ensRegistry'' in
         if truthy asParent then
           (case makeLabelNodeAndParent h name of
              None \<Rightarrow> Inl MalformedNameError
            | Some lnp \<Rightarrow>
                Inr \<lparr>to = registryAddress,
                     data = encodeFunctionData registrySetSubnodeOwnerSnippet ''setSubnodeOwner''
                              [Bytes32 (parentNode lnp), Bytes32 (labelhash lnp),
                               Addr newOwnerAddress]\<rparr>)
         else
           Inr \<lparr>to = registryAddress,
                data = encodeFunctionData setOwnerSnippet ''setOwner''
                         [Bytes32 (namehash h name), Addr newOwnerAddress]\<rparr>)
      else if contract = ''registrar'' then
        (if truthy asParent then
           Inl (AdditionalParameterSpecifiedError ''asParent''
                  [''name'', ''newOwnerAddress'', ''contract'', ''reclaim'']
                  ''Can't transfer a name as the parent owner on the registrar'')
         else
           (case getNameType h name of
              None \<Rightarrow> Inl MalformedNameError
            | Some nameType \<Rightarrow>
                if nameType \<noteq> Eth2ld then
                  Inl (UnsupportedNameTypeError nameType [Eth2ld]
                         ''Only eth-2ld names can be transferred on the registrar contract'')
                else
                  (let labels = split_dot name;
                       tokenId = uint (viem_labelhash h (labels ! 0))
                   in Inr \<lparr>to = getChainContractAddress wallet ''ensBaseRegistrarImplementation'',
                           data =
                             (if truthy reclaim then
                                encodeFunctionData reclaimSnippet ''reclaim''
                                  [BigInt tokenId, Addr newOwnerAddress]
                              else
                                encodeFunctionData erc721SafeTransferFromSnippet ''safeTransferFrom''
                                  [Addr (account_address wallet), Addr newOwnerAddress,
                                   BigInt tokenId])\<rparr>)))
      else if contract = ''nameWrapper'' then
        (let nameWrapperAddress = getChainContractAddress wallet ''ensNameWrapper'' in
         if truthy asParent then
           (case makeLabelNodeAndParent h name of
              None \<Rightarrow> Inl MalformedNameError
            | Some lnp \<Rightarrow>
                Inr \<lparr>to = nameWrapperAddress,
                     data = encodeFunctionData nameWrapperSetSubnodeOwnerSnippet ''setSubnodeOwner''
                              [Bytes32 (parentNode lnp), Str (label lnp), Addr newOwnerAddress,
                               Number 0, BigInt 0]\<rparr>)
         else
           Inr \<lparr>to = nameWrapperAddress,
                data = encodeFunctionData erc1155SafeTransferFromSnippet ''safeTransferFrom''
                         [Addr (account_address wallet), Addr newOwnerAddress,
                          BigInt (uint (namehash h name)), BigInt 1, HexBytes []]\<rparr>)
      else
        Inl (InvalidContractTypeError contract [''registry'', ''registrar'', ''nameWrapper'']))"

section \<open>deleteSubname: makeFunctionData\<close>

definition deleteSubname_makeFunctionData ::
  "Helpers \<Rightarrow> Wallet \<Rightarrow> string \<Rightarrow> string \<Rightarrow> bool option
     \<Rightarrow> error + SimpleTransactionRequest" where
  "deleteSubname_makeFunctionData h wallet name contract asOwner =
     (case getNameType h name of
        None \<Rightarrow> Inl MalformedNameError
      | Some nameType \<Rightarrow>
          if nameType \<noteq> EthSubname \<and> nameType \<noteq> OtherSubname then
            Inl (UnsupportedNameTypeError nameType [EthSubname, OtherSubname]
                   ''Cannot delete a name that is not a subname'')
          else if contract = ''registry'' then
            (let registryAddress = getChainContractAddress wallet ''ensRegistry'' in
             if truthy asOwner then
               Inr \<lparr>to = registryAddress,
                    data = encodeFunctionData registrySetRecordSnippet ''setRecord''
                             [Bytes32 (namehash h name), Addr EMPTY_ADDRESS, Addr EMPTY_ADDRESS,
                              BigInt 0]\<rparr>
             else
               (case makeLabelNodeAndParent h name of
                  None \<Rightarrow> Inl MalformedNameError
                | Some lnp \<Rightarrow>
                    Inr \<lparr>to = registryAddress,
                         data = encodeFunctionData registrySetSubnodeRecordSnippet ''setSubnodeRecord''
                                  [Bytes32 (parentNode lnp), Bytes32 (labelhash lnp),
                                   Addr EMPTY_ADDRESS, Addr EMPTY_ADDRESS, BigInt 0]\<rparr>))
          else if contract = ''nameWrapper'' then
            (let nameWrapperAddress = getChainContractAddress wallet ''ensNameWrapper'' in
             if truthy asOwner then
               Inr \<lparr>to = nameWrapperAddress,
                    data = encodeFunctionData nameWrapperSetRecordSnippet ''setRecord''
                             [Bytes32 (namehash h name), Addr EMPTY_ADDRESS, Addr EMPTY_ADDRESS,
                              BigInt 0]\<rparr>
             else
               (case makeLabelNodeAndParent h name of
                  None \<Rightarrow> Inl MalformedNameError
                | Some lnp \<Rightarrow>
                    Inr \<lparr>to = nameWrapperAddress,
                         data = encodeFunctionData nameWrapperSetSubnodeRecordSnippet ''setSubnodeRecord''
                                  [Bytes32 (parentNode lnp), Str (label lnp),
                                   Addr EMPTY_ADDRESS, Addr EMPTY_ADDRESS, BigInt 0,
                                   Number 0, BigInt 0]\<rparr>))
          else
            Inl (InvalidContractTypeError contract [''registry'', ''nameWrapper'']))"

section \<open>registerName: makeFunctionData\<close>

text \<open>
  \<^verbatim>\<open>{ value, ...args }\<close>: \<open>args'\<close> is the registration parameters, of which the encoder
  reads the name; the type \<^verbatim>\<open>RegistrationParameters\<close> is not under src/, and its other
  fields are kept as one value. \<^verbatim>\<open>wrappedLabelLengthCheck\<close> and \<^verbatim>\<open>makeRegistrationTuple\<close>
  are helpers outside src/ and are parameters; either may throw.
\<close>

record 'r RegistrationParameters =
  name :: string
  others :: 'r

definition registerName_makeFunctionData ::
  "(string \<Rightarrow> error option) \<Rightarrow> ('r RegistrationParameters \<Rightarrow> error + AbiValue list)
     \<Rightarrow> Wallet \<Rightarrow> int \<Rightarrow> 'r RegistrationParameters
     \<Rightarrow> error + RegisterNameDataReturnType" where
  "registerName_makeFunctionData wrappedLabelLengthCheck makeRegistrationTuple wallet val args' =
     (let labels = split_dot (name args') in
      if length labels \<noteq> 2 then
        Inl (Error ''Only second level name registration is supported'')
      else if labels ! 1 \<noteq> ''eth'' then
        Inl (Error ''Only .eth name registration is supported'')
      else
        (case wrappedLabelLengthCheck (labels ! 0) of
           Some e \<Rightarrow> Inl e
         | None \<Rightarrow>
             (case makeRegistrationTuple args' of
                Inl e \<Rightarrow> Inl e
              | Inr tuple \<Rightarrow>
                  Inr \<lparr>to = getChainContractAddress wallet ''ensEthRegistrarController'',
                       data = encodeFunctionData registerSnippet ''register'' tuple,
                       value' = val\<rparr>)))"

section \<open>A deployment for evaluating the encoders\<close>

text \<open>
  The theorems below hold for every digest function and every wallet. To run the
  encoders on concrete names, \<open>example_keccak\<close> stands in for the digest,
  \<open>example_wallet\<close> for a client with its contract table, and
  \<open>example_makeRegistrationTuple\<close> for the tuple maker of registerName.
\<close>

definition example_keccak :: "8 word list \<Rightarrow> Hash" where
  "example_keccak bs = of_nat (length bs)"

definition example_wallet :: Wallet where
  "example_wallet =
     \<lparr>contracts = (\<lambda>c.
        if c = ''ensRegistry'' then 0x10
        else if c = ''ensBaseRegistrarImplementation'' then 0x20
        else if c = ''ensNameWrapper'' then 0x30
        else if c = ''ensEthRegistrarController'' then 0x40
        else 0),
      account_address = 0xA11CE\<rparr>"

definition example_helpers :: Helpers where
  "example_helpers = spec_helpers example_keccak"

definition example_makeRegistrationTuple ::
  "unit RegistrationParameters \<Rightarrow> error + AbiValue list" where
  "example_makeRegistrationTuple a = Inr [Str (name a)]"

section \<open>Facts about names and the helpers of the spec\<close>

lemma split_dot_label:
  "CHR ''.'' \<notin> set l \<Longrightarrow> split_dot (l @ CHR ''.'' # r) = l # split_dot r"
  by (induction l) auto

lemma split_dot_nonempty: "split_dot s \<noteq> []"
  by (induction s) auto

lemma first_label: "split_dot s ! 0 = hd (split_dot s)"
  using split_dot_nonempty [of s] by (simp add: hd_conv_nth)

lemma final_label: "length (split_dot s) = 2 \<Longrightarrow> last (split_dot s) = split_dot s ! 1"
  using split_dot_nonempty [of s] by (simp add: last_conv_nth)

lemma classify_subname_labels:
  assumes "classify n = Some t" and "t = EthSubname \<or> t = OtherSubname"
  shows "2 \<le> length (split_dot n)"
proof -
  have "0 < length (split_dot n)"
    using split_dot_nonempty [of n] by simp
  moreover have "length (split_dot n) \<noteq> 1"
    using assms by (auto simp: classify_def Let_def split: if_splits)
  ultimately show ?thesis by arith
qed

lemma classify_unsupported_labels:
  assumes "classify n = Some Unsupported"
  shows "length (split_dot n) \<noteq> 2"
  using assms by (auto simp: classify_def Let_def split: if_splits)

lemma labelAndParent_of_subname:
  assumes "classify n = Some t" and "t = EthSubname \<or> t = OtherSubname"
  shows "labelAndParent keccak n =
           Some \<lparr>label = hd (split_dot n),
                 labelhash = labelHash keccak (hd (split_dot n)),
                 parentNode = nodeHash keccak (join (tl (split_dot n)))\<rparr>"
  using classify_subname_labels [OF assms] by (simp add: labelAndParent_def Let_def)

section \<open>transferName on the registrar\<close>

text \<open>
  Claim C1. With contract = registrar, a transfer yields a payload only for a name that
  \<^verbatim>\<open>getNameType\<close> classifies as eth-2ld. When \<^verbatim>\<open>asParent\<close> is not set (the parameter
  type has it as \<^verbatim>\<open>never\<close> for the registrar) and the name has another type, the call
  throws UnsupportedNameTypeError. When it goes through with \<^verbatim>\<open>reclaim\<close> set, the payload
  goes to the base registrar's address and calls \<^verbatim>\<open>reclaim\<close> with (tokenId, newOwner),
  where tokenId is the integer value of the label hash of the name's first label.
\<close>

theorem transfer_registrar_requires_eth2ld_and_reclaims:
  "(\<forall>p. transferName_makeFunctionData h w n a ''registrar'' reclaim asParent = Inr p
        \<longrightarrow> getNameType h n = Some Eth2ld)
   \<and> (\<forall>t. \<not> truthy asParent \<and> getNameType h n = Some t \<and> t \<noteq> Eth2ld
        \<longrightarrow> transferName_makeFunctionData h w n a ''registrar'' reclaim asParent =
              Inl (UnsupportedNameTypeError t [Eth2ld]
                     ''Only eth-2ld names can be transferred on the registrar contract''))
   \<and> (\<not> truthy asParent \<and> getNameType h n = Some Eth2ld \<and> truthy reclaim
        \<longrightarrow> transferName_makeFunctionData h w n a ''registrar'' reclaim asParent =
              Inr \<lparr>to = getChainContractAddress w ''ensBaseRegistrarImplementation'',
                   data = encodeFunctionData reclaimSnippet ''reclaim''
                            [BigInt (uint (viem_labelhash h (hd (split_dot n)))), Addr a]\<rparr>)"
  by (auto simp: transferName_makeFunctionData_def first_label split: option.splits if_splits)

theorem transfer_registrar_witness:
  "getNameType example_helpers ''example.eth'' = Some Eth2ld
   \<and> transferName_makeFunctionData example_helpers example_wallet ''example.eth'' 0xB0B
        ''registrar'' (Some True) None =
      Inr \<lparr>to = 0x20,
           data = encodeFunctionData reclaimSnippet ''reclaim''
                    [BigInt (uint (labelHash example_keccak ''example'')), Addr 0xB0B]\<rparr>
   \<and> getNameType example_helpers ''sub.example.eth'' = Some EthSubname
   \<and> transferName_makeFunctionData example_helpers example_wallet ''sub.example.eth'' 0xB0B
        ''registrar'' (Some True) None =
      Inl (UnsupportedNameTypeError EthSubname [Eth2ld]
             ''Only eth-2ld names can be transferred on the registrar contract'')"
proof -
  have c1: "getNameType example_helpers ''example.eth'' = Some Eth2ld"
    by (simp add: example_helpers_def spec_helpers_def classify_def)
  have c2: "getNameType example_helpers ''sub.example.eth'' = Some EthSubname"
    by (simp add: example_helpers_def spec_helpers_def classify_def)
  have t: "truthy (Some True)" "\<not> truthy None"
    by (simp_all add: truthy_def)
  have a: "getChainContractAddress example_wallet ''ensBaseRegistrarImplementation'' = 0x20"
    by (simp add: getChainContractAddress_def example_wallet_def)
  have l: "viem_labelhash example_helpers (hd (split_dot ''example.eth'')) =
           labelHash example_keccak ''example''"
    by (simp add: example_helpers_def spec_helpers_def)
  from transfer_registrar_requires_eth2ld_and_reclaims
         [of example_helpers example_wallet "''example.eth''" "0xB0B" "Some True" None]
       transfer_registrar_requires_eth2ld_and_reclaims
         [of example_helpers example_wallet "''sub.example.eth''" "0xB0B" "Some True" None]
       c1 c2 t a l
  show ?thesis by simp
qed

section \<open>transferName on the name wrapper\<close>

text \<open>
  Claim C2. With contract = nameWrapper and neither \<^verbatim>\<open>asParent\<close> nor \<^verbatim>\<open>reclaim\<close> set
  (\<^verbatim>\<open>reclaim\<close> is \<^verbatim>\<open>never\<close> for this contract), a transfer of any name yields the
  ERC-1155 \<^verbatim>\<open>safeTransferFrom\<close> call at the name wrapper's address, from the wallet's
  account to the new owner, with the integer value of the name's node hash as the id
  and the amount 1.
\<close>

theorem transfer_nameWrapper_safeTransferFrom:
  "\<not> truthy reclaim \<Longrightarrow> \<not> truthy asParent \<Longrightarrow>
   transferName_makeFunctionData h w n a ''nameWrapper'' reclaim asParent =
     Inr \<lparr>to = getChainContractAddress w ''ensNameWrapper'',
          data = encodeFunctionData erc1155SafeTransferFromSnippet ''safeTransferFrom''
                   [Addr (account_address w), Addr a, BigInt (uint (namehash h n)), BigInt 1,
                    HexBytes []]\<rparr>"
  by (simp add: transferName_makeFunctionData_def)

theorem transfer_nameWrapper_witness:
  "\<not> truthy None
   \<and> transferName_makeFunctionData example_helpers example_wallet ''example.eth'' 0xB0B
        ''nameWrapper'' None None =
      Inr \<lparr>to = 0x30,
           data = encodeFunctionData erc1155SafeTransferFromSnippet ''safeTransferFrom''
                    [Addr 0xA11CE, Addr 0xB0B,
                     BigInt (uint (nodeHash example_keccak ''example.eth'')), BigInt 1,
                     HexBytes []]\<rparr>"
proof -
  have t: "\<not> truthy None"
    by (simp add: truthy_def)
  have a: "getChainContractAddress example_wallet ''ensNameWrapper'' = 0x30"
          "account_address example_wallet = 0xA11CE"
    by (simp_all add: getChainContractAddress_def example_wallet_def)
  have l: "namehash example_helpers = nodeHash example_keccak"
    by (simp add: example_helpers_def spec_helpers_def)
  from transfer_nameWrapper_safeTransferFrom
         [OF t t, of example_helpers example_wallet "''example.eth''" "0xB0B"] t a l
  show ?thesis by simp
qed

section \<open>deleteSubname on the registry\<close>

text \<open>
  Claim C3. For a name that \<^verbatim>\<open>getNameType\<close> classifies as a subname, deleteSubname with
  contract = registry yields a payload at the registry's address. With \<^verbatim>\<open>asOwner\<close> set it
  is \<^verbatim>\<open>setRecord\<close> at the node hash of the name with zero owner, zero resolver and zero
  ttl. Otherwise it is \<^verbatim>\<open>setSubnodeRecord\<close> at the parent node and the label hash that
  \<^verbatim>\<open>makeLabelNodeAndParent\<close> returns, with the same zeros; with the helpers of the spec
  these are the node hash of the name without its first label and the label hash of the
  first label.
\<close>

theorem delete_registry_payload:
  assumes "getNameType h n = Some t" and "t = EthSubname \<or> t = OtherSubname"
  shows
  "(truthy asOwner \<longrightarrow>
      deleteSubname_makeFunctionData h w n ''registry'' asOwner =
        Inr \<lparr>to = getChainContractAddress w ''ensRegistry'',
             data = encodeFunctionData registrySetRecordSnippet ''setRecord''
                      [Bytes32 (namehash h n), Addr 0, Addr 0, BigInt 0]\<rparr>)
   \<and> (\<not> truthy asOwner \<longrightarrow>
        (\<forall>lnp. makeLabelNodeAndParent h n = Some lnp \<longrightarrow>
           deleteSubname_makeFunctionData h w n ''registry'' asOwner =
             Inr \<lparr>to = getChainContractAddress w ''ensRegistry'',
                  data = encodeFunctionData registrySetSubnodeRecordSnippet ''setSubnodeRecord''
                           [Bytes32 (parentNode lnp), Bytes32 (labelhash lnp),
                            Addr 0, Addr 0, BigInt 0]\<rparr>))
   \<and> (\<not> truthy asOwner \<longrightarrow>
        (\<forall>keccak. h = spec_helpers keccak \<longrightarrow>
           deleteSubname_makeFunctionData h w n ''registry'' asOwner =
             Inr \<lparr>to = getChainContractAddress w ''ensRegistry'',
                  data = encodeFunctionData registrySetSubnodeRecordSnippet ''setSubnodeRecord''
                           [Bytes32 (nodeHash keccak (join (tl (split_dot n)))),
                            Bytes32 (labelHash keccak (hd (split_dot n))),
                            Addr 0, Addr 0, BigInt 0]\<rparr>))"
proof (intro conjI impI allI)
  assume "truthy asOwner"
  with assms show "deleteSubname_makeFunctionData h w n ''registry'' asOwner =
        Inr \<lparr>to = getChainContractAddress w ''ensRegistry'',
             data = encodeFunctionData registrySetRecordSnippet ''setRecord''
                      [Bytes32 (namehash h n), Addr 0, Addr 0, BigInt 0]\<rparr>"
    by (auto simp: deleteSubname_makeFunctionData_def EMPTY_ADDRESS_def)
next
  fix lnp
  assume "\<not> truthy asOwner" and "makeLabelNodeAndParent h n = Some lnp"
  with assms show "deleteSubname_makeFunctionData h w n ''registry'' asOwner =
             Inr \<lparr>to = getChainContractAddress w ''ensRegistry'',
                  data = encodeFunctionData registrySetSubnodeRecordSnippet ''setSubnodeRecord''
                           [Bytes32 (parentNode lnp), Bytes32 (labelhash lnp),
                            Addr 0, Addr 0, BigInt 0]\<rparr>"
    by (auto simp: deleteSubname_makeFunctionData_def EMPTY_ADDRESS_def)
next
  fix keccak
  assume no: "\<not> truthy asOwner" and h: "h = spec_helpers keccak"
  from assms h have c: "classify n = Some t"
    by (simp add: spec_helpers_def)
  have "makeLabelNodeAndParent h n =
          Some \<lparr>label = hd (split_dot n),
                labelhash = labelHash keccak (hd (split_dot n)),
                parentNode = nodeHash keccak (join (tl (split_dot n)))\<rparr>"
    using labelAndParent_of_subname [OF c assms(2)] h by (simp add: spec_helpers_def)
  with assms no show "deleteSubname_makeFunctionData h w n ''registry'' asOwner =
             Inr \<lparr>to = getChainContractAddress w ''ensRegistry'',
                  data = encodeFunctionData registrySetSubnodeRecordSnippet ''setSubnodeRecord''
                           [Bytes32 (nodeHash keccak (join (tl (split_dot n)))),
                            Bytes32 (labelHash keccak (hd (split_dot n))),
                            Addr 0, Addr 0, BigInt 0]\<rparr>"
    by (auto simp: deleteSubname_makeFunctionData_def EMPTY_ADDRESS_def)
qed

theorem delete_registry_witness:
  "getNameType example_helpers ''sub.example.eth'' = Some EthSubname
   \<and> deleteSubname_makeFunctionData example_helpers example_wallet ''sub.example.eth''
        ''registry'' (Some True) =
      Inr \<lparr>to = 0x10,
           data = encodeFunctionData registrySetRecordSnippet ''setRecord''
                    [Bytes32 (nodeHash example_keccak ''sub.example.eth''), Addr 0, Addr 0,
                     BigInt 0]\<rparr>
   \<and> deleteSubname_makeFunctionData example_helpers example_wallet ''sub.example.eth''
        ''registry'' None =
      Inr \<lparr>to = 0x10,
           data = encodeFunctionData registrySetSubnodeRecordSnippet ''setSubnodeRecord''
                    [Bytes32 (nodeHash example_keccak ''example.eth''),
                     Bytes32 (labelHash example_keccak ''sub''), Addr 0, Addr 0, BigInt 0]\<rparr>"
proof -
  have c: "getNameType example_helpers ''sub.example.eth'' = Some EthSubname"
    by (simp add: example_helpers_def spec_helpers_def classify_def)
  have t: "truthy (Some True)" "\<not> truthy None"
    by (simp_all add: truthy_def)
  have a: "getChainContractAddress example_wallet ''ensRegistry'' = 0x10"
    by (simp add: getChainContractAddress_def example_wallet_def)
  have l: "namehash example_helpers = nodeHash example_keccak"
    by (simp add: example_helpers_def spec_helpers_def)
  have s: "join (tl (split_dot ''sub.example.eth'')) = ''example.eth''"
          "hd (split_dot ''sub.example.eth'') = ''sub''"
    by simp_all
  from delete_registry_payload
         [OF c, of "Some True" example_wallet]
       delete_registry_payload
         [OF c, of None example_wallet]
       t a l s example_helpers_def
  show ?thesis by (simp add: c)
qed

section \<open>Flags that belong to another contract\<close>

text \<open>
  Claim C4. A transfer with \<^verbatim>\<open>reclaim\<close> set and a contract other than the registrar
  throws AdditionalParameterSpecifiedError for \<^verbatim>\<open>reclaim\<close>; a transfer on the registrar
  with \<^verbatim>\<open>asParent\<close> set throws AdditionalParameterSpecifiedError for \<^verbatim>\<open>asParent\<close>; and a
  transfer with \<^verbatim>\<open>asParent\<close> set yields a payload only on the registry or the name
  wrapper.
\<close>

theorem transfer_additional_parameters:
  "(truthy reclaim \<and> c \<noteq> ''registrar'' \<longrightarrow>
      transferName_makeFunctionData h w n a c reclaim asParent =
        Inl (AdditionalParameterSpecifiedError ''reclaim''
               [''name'', ''newOwnerAddress'', ''contract'']
               ''Can't reclaim a name from any contract other than the registrar''))
   \<and> (truthy asParent \<longrightarrow>
        transferName_makeFunctionData h w n a ''registrar'' reclaim asParent =
          Inl (AdditionalParameterSpecifiedError ''asParent''
                 [''name'', ''newOwnerAddress'', ''contract'', ''reclaim'']
                 ''Can't transfer a name as the parent owner on the registrar''))
   \<and> (\<forall>p. truthy asParent \<and> transferName_makeFunctionData h w n a c reclaim asParent = Inr p
          \<longrightarrow> c = ''registry'' \<or> c = ''nameWrapper'')"
  by (auto simp: transferName_makeFunctionData_def split: option.splits if_splits)

theorem transfer_additional_parameters_witness:
  "truthy (Some True)
   \<and> transferName_makeFunctionData example_helpers example_wallet ''example.eth'' 0xB0B
        ''nameWrapper'' (Some True) None =
      Inl (AdditionalParameterSpecifiedError ''reclaim''
             [''name'', ''newOwnerAddress'', ''contract'']
             ''Can't reclaim a name from any contract other than the registrar'')
   \<and> transferName_makeFunctionData example_helpers example_wallet ''example.eth'' 0xB0B
        ''registrar'' (Some True) (Some True) =
      Inl (AdditionalParameterSpecifiedError ''asParent''
             [''name'', ''newOwnerAddress'', ''contract'', ''reclaim'']
             ''Can't transfer a name as the parent owner on the registrar'')
   \<and> transferName_makeFunctionData example_helpers example_wallet ''sub.example.eth'' 0xB0B
        ''registry'' None (Some True) =
      Inr \<lparr>to = 0x10,
           data = encodeFunctionData registrySetSubnodeOwnerSnippet ''setSubnodeOwner''
                    [Bytes32 (nodeHash example_keccak ''example.eth''),
                     Bytes32 (labelHash example_keccak ''sub''), Addr 0xB0B]\<rparr>"
proof -
  have t: "truthy (Some True)"
    by (simp add: truthy_def)
  have r: "transferName_makeFunctionData example_helpers example_wallet ''sub.example.eth'' 0xB0B
        ''registry'' None (Some True) =
      Inr \<lparr>to = 0x10,
           data = encodeFunctionData registrySetSubnodeOwnerSnippet ''setSubnodeOwner''
                    [Bytes32 (nodeHash example_keccak ''example.eth''),
                     Bytes32 (labelHash example_keccak ''sub''), Addr 0xB0B]\<rparr>"
    by (simp add: transferName_makeFunctionData_def truthy_def example_helpers_def
          spec_helpers_def labelAndParent_def getChainContractAddress_def example_wallet_def)
  from transfer_additional_parameters
         [of "Some True" "''nameWrapper''" example_helpers example_wallet "''example.eth''"
             "0xB0B" None]
       transfer_additional_parameters
         [of "Some True" "''registrar''" example_helpers example_wallet "''example.eth''"
             "0xB0B" "Some True"]
       transfer_additional_parameters
         [of None "''registry''" example_helpers example_wallet "''sub.example.eth''"
             "0xB0B" "Some True"]
       t r
  show ?thesis by simp
qed

section \<open>Names classified as unsupported\<close>

text \<open>
  The spec asks that every operation fail with UnsupportedNameTypeError or
  MalformedNameError on a name classified as unsupported. The single foreign label
  \<^verbatim>\<open>com\<close> is such a name for the classifier of the spec. A transfer of it on the
  registry returns the \<^verbatim>\<open>setOwner\<close> payload: the registry and name wrapper branches of
  transferName never call \<^verbatim>\<open>getNameType\<close>. Its registration fails, but with a plain
  \<^verbatim>\<open>Error\<close>.
\<close>

theorem unsupported_name_transfer_counterexample:
  "getNameType example_helpers ''com'' = Some Unsupported
   \<and> transferName_makeFunctionData example_helpers example_wallet ''com'' 0xB0B
        ''registry'' None None =
      Inr \<lparr>to = 0x10,
           data = encodeFunctionData setOwnerSnippet ''setOwner''
                    [Bytes32 (nodeHash example_keccak ''com''), Addr 0xB0B]\<rparr>
   \<and> registerName_makeFunctionData checkLabelLength example_makeRegistrationTuple example_wallet 7
        \<lparr>name = ''com'', others = ()\<rparr> =
      Inl (Error ''Only second level name registration is supported'')"
  by (simp add: transferName_makeFunctionData_def registerName_makeFunctionData_def truthy_def
        example_helpers_def spec_helpers_def classify_def getChainContractAddress_def
        example_wallet_def)

text \<open>
  Claim C5, amended. For a name classified as unsupported, deleteSubname throws
  UnsupportedNameTypeError whatever the contract and \<^verbatim>\<open>asOwner\<close> are; transferName on the
  registrar never yields a payload and throws UnsupportedNameTypeError when \<^verbatim>\<open>asParent\<close> is
  not set; and registerName throws the plain error for a name that is not second level
  (an unsupported name of the spec's classifier has a single label). transferName on the
  registry and on the name wrapper does not look at the name's type: with \<^verbatim>\<open>reclaim\<close> set
  it throws AdditionalParameterSpecifiedError; with \<^verbatim>\<open>reclaim\<close> and \<^verbatim>\<open>asParent\<close> not
  set it yields \<^verbatim>\<open>setOwner\<close> at the node hash on the registry and \<^verbatim>\<open>safeTransferFrom\<close> of
  the node hash on the name wrapper; with \<^verbatim>\<open>asParent\<close> set and \<^verbatim>\<open>reclaim\<close> not set it
  yields \<^verbatim>\<open>setSubnodeOwner\<close> when \<^verbatim>\<open>makeLabelNodeAndParent\<close> returns, and
  MalformedNameError when that helper throws.
\<close>

theorem unsupported_name_operations:
  "(getNameType h n = Some Unsupported \<longrightarrow>
      deleteSubname_makeFunctionData h w n c asOwner =
        Inl (UnsupportedNameTypeError Unsupported [EthSubname, OtherSubname]
               ''Cannot delete a name that is not a subname'')
      \<and> (\<not> truthy asParent \<longrightarrow>
           transferName_makeFunctionData h w n a ''registrar'' reclaim asParent =
             Inl (UnsupportedNameTypeError Unsupported [Eth2ld]
                    ''Only eth-2ld names can be transferred on the registrar contract''))
      \<and> (\<forall>p. transferName_makeFunctionData h w n a ''registrar'' reclaim asParent \<noteq> Inr p)
      \<and> (truthy reclaim \<longrightarrow>
           transferName_makeFunctionData h w n a ''registry'' reclaim asParent =
             Inl (AdditionalParameterSpecifiedError ''reclaim''
                    [''name'', ''newOwnerAddress'', ''contract'']
                    ''Can't reclaim a name from any contract other than the registrar'')
           \<and> transferName_makeFunctionData h w n a ''nameWrapper'' reclaim asParent =
             Inl (AdditionalParameterSpecifiedError ''reclaim''
                    [''name'', ''newOwnerAddress'', ''contract'']
                    ''Can't reclaim a name from any contract other than the registrar''))
      \<and> (\<not> truthy reclaim \<and> \<not> truthy asParent \<longrightarrow>
           transferName_makeFunctionData h w n a ''registry'' reclaim asParent =
             Inr \<lparr>to = getChainContractAddress w ''ensRegistry'',
                  data = encodeFunctionData setOwnerSnippet ''setOwner''
                           [Bytes32 (namehash h n), Addr a]\<rparr>
           \<and> transferName_makeFunctionData h w n a ''nameWrapper'' reclaim asParent =
             Inr \<lparr>to = getChainContractAddress w ''ensNameWrapper'',
                  data = encodeFunctionData erc1155SafeTransferFromSnippet ''safeTransferFrom''
                           [Addr (account_address w), Addr a, BigInt (uint (namehash h n)),
                            BigInt 1, HexBytes []]\<rparr>)
      \<and> (\<forall>lnp. \<not> truthy reclaim \<and> truthy asParent \<and> makeLabelNodeAndParent h n = Some lnp
           \<longrightarrow>
           transferName_makeFunctionData h w n a ''registry'' reclaim asParent =
             Inr \<lparr>to = getChainContractAddress w ''ensRegistry'',
                  data = encodeFunctionData registrySetSubnodeOwnerSnippet ''setSubnodeOwner''
                           [Bytes32 (parentNode lnp), Bytes32 (labelhash lnp), Addr a]\<rparr>
           \<and> transferName_makeFunctionData h w n a ''nameWrapper'' reclaim asParent =
             Inr \<lparr>to = getChainContractAddress w ''ensNameWrapper'',
                  data = encodeFunctionData nameWrapperSetSubnodeOwnerSnippet ''setSubnodeOwner''
                           [Bytes32 (parentNode lnp), Str (label lnp), Addr a, Number 0,
                            BigInt 0]\<rparr>)
      \<and> (\<not> truthy reclaim \<and> truthy asParent \<and> makeLabelNodeAndParent h n = None \<longrightarrow>
           transferName_makeFunctionData h w n a ''registry'' reclaim asParent =
             Inl MalformedNameError
           \<and> transferName_makeFunctionData h w n a ''nameWrapper'' reclaim asParent =
             Inl MalformedNameError))
   \<and> (classify (name args') = Some Unsupported \<longrightarrow>
        registerName_makeFunctionData chk mk w v args' =
          Inl (Error ''Only second level name registration is supported''))"
proof (intro conjI impI allI)
  assume "classify (name args') = Some Unsupported"
  then have "length (split_dot (name args')) \<noteq> 2"
    by (rule classify_unsupported_labels)
  then show "registerName_makeFunctionData chk mk w v args' =
          Inl (Error ''Only second level name registration is supported'')"
    by (simp add: registerName_makeFunctionData_def Let_def)
qed (auto simp: deleteSubname_makeFunctionData_def transferName_makeFunctionData_def)

theorem unsupported_name_operations_witness:
  "getNameType example_helpers ''com'' = Some Unsupported
   \<and> deleteSubname_makeFunctionData example_helpers example_wallet ''com'' ''nameWrapper'' None =
       Inl (UnsupportedNameTypeError Unsupported [EthSubname, OtherSubname]
              ''Cannot delete a name that is not a subname'')
   \<and> transferName_makeFunctionData example_helpers example_wallet ''com'' 0xB0B
        ''registrar'' None None =
       Inl (UnsupportedNameTypeError Unsupported [Eth2ld]
              ''Only eth-2ld names can be transferred on the registrar contract'')
   \<and> transferName_makeFunctionData example_helpers example_wallet ''com'' 0xB0B
        ''nameWrapper'' (Some True) None =
       Inl (AdditionalParameterSpecifiedError ''reclaim''
              [''name'', ''newOwnerAddress'', ''contract'']
              ''Can't reclaim a name from any contract other than the registrar'')
   \<and> transferName_makeFunctionData example_helpers example_wallet ''com'' 0xB0B
        ''registry'' None None =
       Inr \<lparr>to = 0x10,
            data = encodeFunctionData setOwnerSnippet ''setOwner''
                     [Bytes32 (nodeHash example_keccak ''com''), Addr 0xB0B]\<rparr>
   \<and> transferName_makeFunctionData example_helpers example_wallet ''com'' 0xB0B
        ''nameWrapper'' None None =
       Inr \<lparr>to = 0x30,
            data = encodeFunctionData erc1155SafeTransferFromSnippet ''safeTransferFrom''
                     [Addr 0xA11CE, Addr 0xB0B, BigInt (uint (nodeHash example_keccak ''com'')),
                      BigInt 1, HexBytes []]\<rparr>
   \<and> makeLabelNodeAndParent example_helpers ''com'' = None
   \<and> transferName_makeFunctionData example_helpers example_wallet ''com'' 0xB0B
        ''registry'' None (Some True) =
       Inl MalformedNameError
   \<and> registerName_makeFunctionData checkLabelLength example_makeRegistrationTuple example_wallet 7
        \<lparr>name = ''com'', others = ()\<rparr> =
       Inl (Error ''Only second level name registration is supported'')"
proof -
  have c: "getNameType example_helpers ''com'' = Some Unsupported"
          "classify ''com'' = Some Unsupported"
    by (simp_all add: example_helpers_def spec_helpers_def classify_def)
  have t: "\<not> truthy None" "truthy (Some True)"
    by (simp_all add: truthy_def)
  have a: "getChainContractAddress example_wallet ''ensRegistry'' = 0x10"
          "getChainContractAddress example_wallet ''ensNameWrapper'' = 0x30"
          "account_address example_wallet = 0xA11CE"
    by (simp_all add: getChainContractAddress_def example_wallet_def)
  have l: "namehash example_helpers = nodeHash example_keccak"
    by (simp add: example_helpers_def spec_helpers_def)
  have m: "makeLabelNodeAndParent example_helpers ''com'' = None"
    by (simp add: example_helpers_def spec_helpers_def labelAndParent_def)
  note inst = unsupported_name_operations
         [where h = example_helpers and n = "''com''" and w = example_wallet
            and c = "''nameWrapper''" and asOwner = None and a = "0xB0B"
            and args' = "\<lparr>name = ''com'', others = ()\<rparr>"
            and chk = checkLabelLength and mk = example_makeRegistrationTuple and v = 7]
  from inst [where reclaim = None and asParent = None]
       inst [where reclaim = "Some True" and asParent = None]
       inst [where reclaim = None and asParent = "Some True"]
       c t a l m
  show ?thesis by simp
qed

section \<open>deleteSubname accepts subnames only\<close>

text \<open>
  Claim C6. deleteSubname throws UnsupportedNameTypeError for every name that
  \<^verbatim>\<open>getNameType\<close> gives a type other than eth-subname and other-subname, on every
  contract value; it yields a payload only for a name of one of these two types.
\<close>

theorem delete_requires_subname:
  "(\<forall>t. getNameType h n = Some t \<and> t \<noteq> EthSubname \<and> t \<noteq> OtherSubname \<longrightarrow>
        deleteSubname_makeFunctionData h w n c asOwner =
          Inl (UnsupportedNameTypeError t [EthSubname, OtherSubname]
                 ''Cannot delete a name that is not a subname''))
   \<and> (\<forall>p. deleteSubname_makeFunctionData h w n c asOwner = Inr p \<longrightarrow>
          (getNameType h n = Some EthSubname \<or> getNameType h n = Some OtherSubname)
          \<and> (c = ''registry'' \<or> c = ''nameWrapper''))"
  by (auto simp: deleteSubname_makeFunctionData_def Let_def split: option.splits if_splits)

theorem delete_requires_subname_witness:
  "getNameType example_helpers ''example.eth'' = Some Eth2ld
   \<and> deleteSubname_makeFunctionData example_helpers example_wallet ''example.eth''
        ''registry'' None =
      Inl (UnsupportedNameTypeError Eth2ld [EthSubname, OtherSubname]
             ''Cannot delete a name that is not a subname'')
   \<and> getNameType example_helpers ''eth'' = Some EthTld
   \<and> deleteSubname_makeFunctionData example_helpers example_wallet ''eth''
        ''nameWrapper'' (Some True) =
      Inl (UnsupportedNameTypeError EthTld [EthSubname, OtherSubname]
             ''Cannot delete a name that is not a subname'')
   \<and> getNameType example_helpers ''sub.example.com'' = Some OtherSubname
   \<and> deleteSubname_makeFunctionData example_helpers example_wallet ''sub.example.com''
        ''nameWrapper'' (Some True) =
      Inr \<lparr>to = 0x30,
           data = encodeFunctionData nameWrapperSetRecordSnippet ''setRecord''
                    [Bytes32 (nodeHash example_keccak ''sub.example.com''), Addr 0, Addr 0,
                     BigInt 0]\<rparr>"
proof -
  have c: "getNameType example_helpers ''example.eth'' = Some Eth2ld"
          "getNameType example_helpers ''eth'' = Some EthTld"
          "getNameType example_helpers ''sub.example.com'' = Some OtherSubname"
    by (simp_all add: example_helpers_def spec_helpers_def classify_def)
  have r: "deleteSubname_makeFunctionData example_helpers example_wallet ''sub.example.com''
        ''nameWrapper'' (Some True) =
      Inr \<lparr>to = 0x30,
           data = encodeFunctionData nameWrapperSetRecordSnippet ''setRecord''
                    [Bytes32 (nodeHash example_keccak ''sub.example.com''), Addr 0, Addr 0,
                     BigInt 0]\<rparr>"
    by (simp add: deleteSubname_makeFunctionData_def c truthy_def EMPTY_ADDRESS_def
          getChainContractAddress_def example_wallet_def)
       (simp add: example_helpers_def spec_helpers_def)
  from delete_requires_subname
         [of example_helpers "''example.eth''" example_wallet "''registry''" None]
       delete_requires_subname
         [of example_helpers "''eth''" example_wallet "''nameWrapper''" "Some True"]
       delete_requires_subname
         [of example_helpers "''sub.example.com''" example_wallet "''nameWrapper''" "Some True"]
       c r
  show ?thesis by simp
qed

section \<open>registerName\<close>

text \<open>
  Claim C7. registerName yields a payload only for a name of exactly two labels whose
  final label is \<^verbatim>\<open>eth\<close>, and only after the length check of the first label has
  passed; any other number of labels and any other final label is a thrown
  \<^verbatim>\<open>Error\<close>. With the length check of the spec, a first label of more than 255 bytes
  is LabelTooLongError, thrown before the registration tuple is made, and a label of
  at most 255 bytes lets the payload through.
\<close>

theorem register_requires_eth_2ld_and_label_length:
  "(\<forall>p. registerName_makeFunctionData chk mk w v args' = Inr p \<longrightarrow>
        length (split_dot (name args')) = 2 \<and> last (split_dot (name args')) = ''eth''
        \<and> chk (hd (split_dot (name args'))) = None)
   \<and> (length (split_dot (name args')) \<noteq> 2 \<longrightarrow>
        registerName_makeFunctionData chk mk w v args' =
          Inl (Error ''Only second level name registration is supported''))
   \<and> (length (split_dot (name args')) = 2 \<and> last (split_dot (name args')) \<noteq> ''eth'' \<longrightarrow>
        registerName_makeFunctionData chk mk w v args' =
          Inl (Error ''Only .eth name registration is supported''))
   \<and> (length (split_dot (name args')) = 2 \<and> last (split_dot (name args')) = ''eth''
        \<and> 255 < length (hd (split_dot (name args'))) \<longrightarrow>
        registerName_makeFunctionData checkLabelLength mk w v args' = Inl LabelTooLongError)
   \<and> (\<forall>tuple. length (split_dot (name args')) = 2 \<and> last (split_dot (name args')) = ''eth''
        \<and> length (hd (split_dot (name args'))) \<le> 255 \<and> mk args' = Inr tuple \<longrightarrow>
        registerName_makeFunctionData checkLabelLength mk w v args' =
          Inr \<lparr>to = getChainContractAddress w ''ensEthRegistrarController'',
               data = encodeFunctionData registerSnippet ''register'' tuple,
               value' = v\<rparr>)"
  by (auto simp: registerName_makeFunctionData_def Let_def first_label final_label
        checkLabelLength_def split: option.splits sum.splits if_splits)

theorem register_witness:
  "registerName_makeFunctionData checkLabelLength example_makeRegistrationTuple example_wallet 7
        \<lparr>name = ''sub.example.eth'', others = ()\<rparr> =
      Inl (Error ''Only second level name registration is supported'')
   \<and> registerName_makeFunctionData checkLabelLength example_makeRegistrationTuple example_wallet 7
        \<lparr>name = ''example.com'', others = ()\<rparr> =
      Inl (Error ''Only .eth name registration is supported'')
   \<and> length (replicate 256 (CHR ''6'')) = 256
   \<and> registerName_makeFunctionData checkLabelLength example_makeRegistrationTuple example_wallet 7
        \<lparr>name = replicate 256 (CHR ''6'') @ ''.eth'', others = ()\<rparr> =
      Inl LabelTooLongError
   \<and> registerName_makeFunctionData checkLabelLength example_makeRegistrationTuple example_wallet 7
        \<lparr>name = ''example.eth'', others = ()\<rparr> =
      Inr \<lparr>to = 0x40,
           data = encodeFunctionData registerSnippet ''register'' [Str ''example.eth''],
           value' = 7\<rparr>"
proof -
  have s: "split_dot (replicate 256 (CHR ''6'') @ ''.eth'') = [replicate 256 (CHR ''6''), ''eth'']"
    using split_dot_label [of "replicate 256 (CHR ''6'')" "''eth''"] by simp
  have a: "getChainContractAddress example_wallet ''ensEthRegistrarController'' = 0x40"
    by (simp add: getChainContractAddress_def example_wallet_def)
  have m: "example_makeRegistrationTuple \<lparr>name = ''example.eth'', others = ()\<rparr> =
             Inr [Str ''example.eth'']"
    by (simp add: example_makeRegistrationTuple_def)
  from register_requires_eth_2ld_and_label_length
         [of checkLabelLength example_makeRegistrationTuple example_wallet 7
             "\<lparr>name = ''sub.example.eth'', others = ()\<rparr>"]
       register_requires_eth_2ld_and_label_length
         [of checkLabelLength example_makeRegistrationTuple example_wallet 7
             "\<lparr>name = ''example.com'', others = ()\<rparr>"]
       register_requires_eth_2ld_and_label_length
         [of checkLabelLength example_makeRegistrationTuple example_wallet 7
             "\<lparr>name = replicate 256 (CHR ''6'') @ ''.eth'', others = ()\<rparr>"]
       register_requires_eth_2ld_and_label_length
         [of checkLabelLength example_makeRegistrationTuple example_wallet 7
             "\<lparr>name = ''example.eth'', others = ()\<rparr>"]
       s a m
  show ?thesis by simp
qed

section \<open>deleteSubname on the name wrapper\<close>

text \<open>
  Claim C8. For a name classified as a subname, deleteSubname with contract = nameWrapper
  yields a payload at the name wrapper's address. With \<^verbatim>\<open>asOwner\<close> set it is
  \<^verbatim>\<open>setRecord\<close> at the node hash of the name with zero owner, resolver and ttl.
  Otherwise it is the wrapper's \<^verbatim>\<open>setSubnodeRecord\<close> with the parent node, the label as
  text, zero owner, resolver and ttl, and then fuses 0 and expiry 0.
\<close>

theorem delete_nameWrapper_payload:
  assumes "getNameType h n = Some t" and "t = EthSubname \<or> t = OtherSubname"
  shows
  "(truthy asOwner \<longrightarrow>
      deleteSubname_makeFunctionData h w n ''nameWrapper'' asOwner =
        Inr \<lparr>to = getChainContractAddress w ''ensNameWrapper'',
             data = encodeFunctionData nameWrapperSetRecordSnippet ''setRecord''
                      [Bytes32 (namehash h n), Addr 0, Addr 0, BigInt 0]\<rparr>)
   \<and> (\<not> truthy asOwner \<longrightarrow>
        (\<forall>lnp. makeLabelNodeAndParent h n = Some lnp \<longrightarrow>
           deleteSubname_makeFunctionData h w n ''nameWrapper'' asOwner =
             Inr \<lparr>to = getChainContractAddress w ''ensNameWrapper'',
                  data = encodeFunctionData nameWrapperSetSubnodeRecordSnippet ''setSubnodeRecord''
                           [Bytes32 (parentNode lnp), Str (label lnp),
                            Addr 0, Addr 0, BigInt 0, Number 0, BigInt 0]\<rparr>))"
  using assms
  by (auto simp: deleteSubname_makeFunctionData_def EMPTY_ADDRESS_def)

theorem delete_nameWrapper_witness:
  "getNameType example_helpers ''sub.example.eth'' = Some EthSubname
   \<and> deleteSubname_makeFunctionData example_helpers example_wallet ''sub.example.eth''
        ''nameWrapper'' (Some True) =
      Inr \<lparr>to = 0x30,
           data = encodeFunctionData nameWrapperSetRecordSnippet ''setRecord''
                    [Bytes32 (nodeHash example_keccak ''sub.example.eth''), Addr 0, Addr 0,
                     BigInt 0]\<rparr>
   \<and> makeLabelNodeAndParent example_helpers ''sub.example.eth'' =
        Some \<lparr>label = ''sub'', labelhash = labelHash example_keccak ''sub'',
              parentNode = nodeHash example_keccak ''example.eth''\<rparr>
   \<and> deleteSubname_makeFunctionData example_helpers example_wallet ''sub.example.eth''
        ''nameWrapper'' (Some False) =
      Inr \<lparr>to = 0x30,
           data = encodeFunctionData nameWrapperSetSubnodeRecordSnippet ''setSubnodeRecord''
                    [Bytes32 (nodeHash example_keccak ''example.eth''), Str ''sub'',
                     Addr 0, Addr 0, BigInt 0, Number 0, BigInt 0]\<rparr>"
proof -
  have c: "getNameType example_helpers ''sub.example.eth'' = Some EthSubname"
    by (simp add: example_helpers_def spec_helpers_def classify_def)
  have t: "truthy (Some True)" "\<not> truthy (Some False)"
    by (simp_all add: truthy_def)
  have a: "getChainContractAddress example_wallet ''ensNameWrapper'' = 0x30"
    by (simp add: getChainContractAddress_def example_wallet_def)
  have l: "namehash example_helpers = nodeHash example_keccak"
    by (simp add: example_helpers_def spec_helpers_def)
  have m: "makeLabelNodeAndParent example_helpers ''sub.example.eth'' =
        Some \<lparr>label = ''sub'', labelhash = labelHash example_keccak ''sub'',
              parentNode = nodeHash example_keccak ''example.eth''\<rparr>"
    by (simp add: example_helpers_def spec_helpers_def labelAndParent_def)
  from delete_nameWrapper_payload [OF c, of "Some True" example_wallet]
       delete_nameWrapper_payload [OF c, of "Some False" example_wallet]
       c t a l m
  show ?thesis by simp
qed

section \<open>Contract values outside the switch\<close>

text \<open>
  The spec has every unmatched contract value end in InvalidContractTypeError, whatever
  the other parameters are. Two guards stand before the switches: transferName with
  \<^verbatim>\<open>reclaim\<close> set and the contract \<^verbatim>\<open>resolver\<close> throws AdditionalParameterSpecifiedError,
  and deleteSubname of the second-level name \<^verbatim>\<open>example.eth\<close> on the contract
  \<^verbatim>\<open>resolver\<close> throws UnsupportedNameTypeError.
\<close>

theorem unrecognised_contract_counterexample:
  "transferName_makeFunctionData example_helpers example_wallet ''example.eth'' 0xB0B
        ''resolver'' (Some True) None =
      Inl (AdditionalParameterSpecifiedError ''reclaim''
             [''name'', ''newOwnerAddress'', ''contract'']
             ''Can't reclaim a name from any contract other than the registrar'')
   \<and> deleteSubname_makeFunctionData example_helpers example_wallet ''example.eth''
        ''resolver'' None =
      Inl (UnsupportedNameTypeError Eth2ld [EthSubname, OtherSubname]
             ''Cannot delete a name that is not a subname'')"
  by (simp add: transferName_makeFunctionData_def deleteSubname_makeFunctionData_def truthy_def
        example_helpers_def spec_helpers_def classify_def)

text \<open>
  Claim C9, amended. A contract value outside the switch never yields a payload.
  transferName throws InvalidContractTypeError for it when \<^verbatim>\<open>reclaim\<close> is not set, and
  AdditionalParameterSpecifiedError when it is; deleteSubname throws
  InvalidContractTypeError for it when the name is classified as a subname.
\<close>

theorem unrecognised_contract_never_encodes:
  "(c \<noteq> ''registry'' \<and> c \<noteq> ''registrar'' \<and> c \<noteq> ''nameWrapper'' \<longrightarrow>
      (\<forall>p. transferName_makeFunctionData h w n a c reclaim asParent \<noteq> Inr p)
      \<and> (\<not> truthy reclaim \<longrightarrow>
           transferName_makeFunctionData h w n a c reclaim asParent =
             Inl (InvalidContractTypeError c [''registry'', ''registrar'', ''nameWrapper'']))
      \<and> (truthy reclaim \<longrightarrow>
           transferName_makeFunctionData h w n a c reclaim asParent =
             Inl (AdditionalParameterSpecifiedError ''reclaim''
                    [''name'', ''newOwnerAddress'', ''contract'']
                    ''Can't reclaim a name from any contract other than the registrar'')))
   \<and> (c \<noteq> ''registry'' \<and> c \<noteq> ''nameWrapper'' \<longrightarrow>
        (\<forall>p. deleteSubname_makeFunctionData h w n c asOwner \<noteq> Inr p)
        \<and> (getNameType h n = Some EthSubname \<or> getNameType h n = Some OtherSubname \<longrightarrow>
             deleteSubname_makeFunctionData h w n c asOwner =
               Inl (InvalidContractTypeError c [''registry'', ''nameWrapper''])))"
  by (auto simp: transferName_makeFunctionData_def deleteSubname_makeFunctionData_def
        split: option.splits if_splits)

theorem unrecognised_contract_witness:
  "transferName_makeFunctionData example_helpers example_wallet ''example.eth'' 0xB0B
        ''resolver'' None (Some True) =
      Inl (InvalidContractTypeError ''resolver'' [''registry'', ''registrar'', ''nameWrapper''])
   \<and> transferName_makeFunctionData example_helpers example_wallet ''example.eth'' 0xB0B
        ''resolver'' (Some True) None =
      Inl (AdditionalParameterSpecifiedError ''reclaim''
             [''name'', ''newOwnerAddress'', ''contract'']
             ''Can't reclaim a name from any contract other than the registrar'')
   \<and> getNameType example_helpers ''sub.example.eth'' = Some EthSubname
   \<and> deleteSubname_makeFunctionData example_helpers example_wallet ''sub.example.eth''
        ''registrar'' (Some True) =
      Inl (InvalidContractTypeError ''registrar'' [''registry'', ''nameWrapper''])"
proof -
  have c: "getNameType example_helpers ''sub.example.eth'' = Some EthSubname"
    by (simp add: example_helpers_def spec_helpers_def classify_def)
  have t: "truthy (Some True)" "\<not> truthy None"
    by (simp_all add: truthy_def)
  from unrecognised_contract_never_encodes
         [where c = "''resolver''" and h = example_helpers and w = example_wallet
            and n = "''example.eth''" and a = "0xB0B" and reclaim = None
            and asParent = "Some True" and asOwner = None]
       unrecognised_contract_never_encodes
         [where c = "''resolver''" and h = example_helpers and w = example_wallet
            and n = "''example.eth''" and a = "0xB0B" and reclaim = "Some True"
            and asParent = None and asOwner = None]
       unrecognised_contract_never_encodes
         [where c = "''registrar''" and h = example_helpers and w = example_wallet
            and n = "''sub.example.eth''" and a = "0xB0B" and reclaim = None
            and asParent = None and asOwner = "Some True"]
       c t
  show ?thesis by simp
qed

section \<open>deleteSubname checks the name before the contract\<close>

text \<open>
  Claim C10. In deleteSubname the name's type is checked before the switch on the
  contract: a name of a type other than the two subname types is UnsupportedNameTypeError
  on every contract value, recognised or not, and InvalidContractTypeError is thrown only
  for names classified as subnames.
\<close>

theorem delete_checks_name_type_first:
  "(\<forall>t. getNameType h n = Some t \<and> t \<noteq> EthSubname \<and> t \<noteq> OtherSubname \<longrightarrow>
        deleteSubname_makeFunctionData h w n c asOwner =
          Inl (UnsupportedNameTypeError t [EthSubname, OtherSubname]
                 ''Cannot delete a name that is not a subname''))
   \<and> (\<forall>c' l. deleteSubname_makeFunctionData h w n c asOwner = Inl (InvalidContractTypeError c' l)
          \<longrightarrow> getNameType h n = Some EthSubname \<or> getNameType h n = Some OtherSubname)"
  by (auto simp: deleteSubname_makeFunctionData_def Let_def split: option.splits if_splits)

theorem delete_checks_name_type_first_witness:
  "getNameType example_helpers ''example.eth'' = Some Eth2ld
   \<and> deleteSubname_makeFunctionData example_helpers example_wallet ''example.eth''
        ''resolver'' None =
      Inl (UnsupportedNameTypeError Eth2ld [EthSubname, OtherSubname]
             ''Cannot delete a name that is not a subname'')
   \<and> deleteSubname_makeFunctionData example_helpers example_wallet ''sub.example.eth''
        ''resolver'' None =
      Inl (InvalidContractTypeError ''resolver'' [''registry'', ''nameWrapper''])
   \<and> getNameType example_helpers ''sub.example.eth'' = Some EthSubname"
proof -
  have c: "getNameType example_helpers ''example.eth'' = Some Eth2ld"
          "getNameType example_helpers ''sub.example.eth'' = Some EthSubname"
    by (simp_all add: example_helpers_def spec_helpers_def classify_def)
  have r: "deleteSubname_makeFunctionData example_helpers example_wallet ''sub.example.eth''
        ''resolver'' None =
      Inl (InvalidContractTypeError ''resolver'' [''registry'', ''nameWrapper''])"
    by (simp add: deleteSubname_makeFunctionData_def c)
  from delete_checks_name_type_first
         [of example_helpers "''example.eth''" example_wallet "''resolver''" None]
       delete_checks_name_type_first
         [of example_helpers "''sub.example.eth''" example_wallet "''resolver''" None]
       c r
  show ?thesis by simp
qed

end
